theory Spec2Isabelle
  imports Main
begin

section \<open>Admin sign-in: the \<open>onSubmit\<close> flow of \<open>AdminLogin.tsx\<close>\<close>

text \<open>
  The component \<open>AdminLogin\<close> owns one piece of state that matters here, \<open>isLoading\<close>,
  and one asynchronous handler, \<open>onSubmit\<close>. The handler is embedded as a function
  from its inputs (the form values, what the awaited \<open>AdminApi.login\<close> call settles to,
  and what \<open>socketService.isSocketConnected()\<close> answers) to the list of effects it
  performs, in program order. Every call the handler makes on a collaborator is one
  effect; a \<open>throw\<close> is a value that the \<open>catch\<close> block receives.

  The collaborators themselves (\<open>setAdminToken\<close>, \<open>localStorage\<close>,
  \<open>window.dispatchEvent\<close>, \<open>socketService\<close>, \<open>toast\<close>, \<open>onLoginSuccess\<close>, the two
  dynamic imports) are not part of the component; they are taken to complete normally,
  so the only exceptions in the model are the rejection of \<open>AdminApi.login\<close> and the
  three \<open>throw\<close> statements of the handler.
\<close>

subsection \<open>Data\<close>

text \<open>
  The form values, \<open>AdminLoginValues\<close>. A string is the list of its code units, so
  that \<open>length\<close> is the \<open>.length\<close> of the source.
\<close>

record values_rec =
  email :: string
  password :: string

text \<open>
  The principal object found under \<open>data.admin\<close> or \<open>data.user\<close>. The handler reads only
  its \<open>role\<close> (\<open>None\<close>: the field is absent, \<open>undefined\<close> in the source); the other
  fields travel with it uninterpreted.
\<close>

record principal =
  role :: "string option"
  profile :: "(string \<times> string) list"

text \<open>\<open>response.data\<close>: each field may be absent.\<close>

record resp_data =
  token :: "string option"
  user :: "principal option"
  admin :: "principal option"

text \<open>The object \<open>AdminApi.login\<close> resolves to.\<close>

record response =
  success :: bool
  data :: "resp_data option"
  error :: "string option"

text \<open>
  A thrown value: an instance of \<open>Error\<close> with its message, or anything else (the
  \<open>catch\<close> block tells them apart with \<open>instanceof Error\<close>).
\<close>

datatype thrown = Error string | NonError

text \<open>What \<open>await AdminApi.login(...)\<close> settles to.\<close>

datatype login_outcome = Resolved response | Rejected thrown

text \<open>
  The environment of one run: the outcome of the remote exchange and the answer of
  \<open>socketService.isSocketConnected()\<close>.
\<close>

record env =
  login_result :: login_outcome
  socket_connected :: bool

subsection \<open>Effects\<close>

text \<open>
  The objects handed to \<open>console.log\<close> and \<open>console.error\<close>, one constructor per call
  site, with the fields of the logged object in source order. The label strings of the
  source are not reproduced; \<open>responseKeys\<close> and \<open>dataKeys\<close> of the third log are
  determined by the logged \<open>fullResponse\<close> and are not listed separately.
\<close>

datatype console_payload =
    LogAttempt string bool
  | LogResponse bool bool bool "string option" "string option"
  | LogCompleteResponse response bool bool bool string
  | LogSelected "principal option" "string option" bool
  | ErrNoUserData resp_data
  | ErrAccessDenied "string option" string principal
  | ErrLogin thrown

datatype toast_variant = Default | Destructive

text \<open>The value \<open>JSON.stringify(adminUser)\<close>, kept as the serialisation of its argument.\<close>

datatype json = JSON_stringify principal

text \<open>The arrow function handed to \<open>setTimeout\<close>.\<close>

datatype timer_callback = ConnectSocket

datatype effect =
    SetIsLoading bool
  | ConsoleLog console_payload
  | ConsoleError console_payload
  | ApiLogin string string
  | ImportModule string
  | SetAdminToken string
  | LocalStorageSetItem string json
  | DispatchEvent string principal string
  | IsSocketConnected
  | SocketDisconnect
  | SetTimeout timer_callback nat
  | SocketConnect
  | Toast toast_variant string string
  | OnLoginSuccess
  | FieldErrors "(string \<times> string) list"

subsection \<open>JavaScript operators used by the handler\<close>

text \<open>Truthiness of an optional string: absent and the empty string are falsy.\<close>

definition truthy :: "string option \<Rightarrow> bool" where
  "truthy s = (case s of None \<Rightarrow> False | Some x \<Rightarrow> x \<noteq> [])"

text \<open>\<open>s || d\<close> for an optional string \<open>s\<close> and a string \<open>d\<close>.\<close>

definition or_default :: "string option \<Rightarrow> string \<Rightarrow> string" where
  "or_default s d = (case s of None \<Rightarrow> d | Some x \<Rightarrow> if x \<noteq> [] then x else d)"

text \<open>\<open>response.data?.token\<close>, \<open>response.data?.user?.role\<close>, \<open>response.data?.admin?.role\<close>.\<close>

definition data_token :: "response \<Rightarrow> string option" where
  "data_token r = (case data r of None \<Rightarrow> None | Some d \<Rightarrow> token d)"

definition opt_role :: "principal option \<Rightarrow> string option" where
  "opt_role p = (case p of None \<Rightarrow> None | Some u \<Rightarrow> role u)"

definition data_user_role :: "response \<Rightarrow> string option" where
  "data_user_role r = (case data r of None \<Rightarrow> None | Some d \<Rightarrow> opt_role (user d))"

definition data_admin_role :: "response \<Rightarrow> string option" where
  "data_admin_role r = (case data r of None \<Rightarrow> None | Some d \<Rightarrow> opt_role (admin d))"

text \<open>\<open>response.data.admin || response.data.user\<close>: an object is truthy when present.\<close>

definition select_principal :: "resp_data \<Rightarrow> principal option" where
  "select_principal d = (case admin d of Some a \<Rightarrow> Some a | None \<Rightarrow> user d)"

subsection \<open>The handler\<close>

text \<open>
  The statements of \<open>onSubmit\<close> from \<open>setAdminToken\<close> to \<open>onLoginSuccess()\<close>: reached
  with the token and the selected principal once the role check has passed.
\<close>

definition admit_session :: "bool \<Rightarrow> string \<Rightarrow> principal \<Rightarrow> effect list" where
  "admit_session connected tok adminUser =
     [ImportModule ''@/services/api'',
      SetAdminToken tok,
      LocalStorageSetItem ''admin_user'' (JSON_stringify adminUser),
      DispatchEvent ''adminLoginSuccess'' adminUser tok,
      ImportModule ''@/services/socket'',
      IsSocketConnected]
     @ (if connected then [SocketDisconnect] else [])
     @ [SetTimeout ConnectSocket 100,
        Toast Default ''Admin Access Granted'' ''Welcome to the admin panel.'',
        OnLoginSuccess]"

text \<open>
  The condition \<open>response.success && response.data?.token\<close>: when it holds, the data
  object and the (non-empty) token that the \<open>then\<close> branch goes on to use.
\<close>

definition token_granted :: "response \<Rightarrow> (resp_data \<times> string) option" where
  "token_granted r =
     (if success r \<and> truthy (data_token r) then
        (case data r of
           None \<Rightarrow> None
         | Some d \<Rightarrow> (case token d of None \<Rightarrow> None | Some tok \<Rightarrow> Some (d, tok)))
      else None)"

text \<open>
  The body of the \<open>try\<close> block after the awaited call has resolved: the effects
  performed, and the value thrown if the block is left by a \<open>throw\<close>.
\<close>

definition on_response :: "bool \<Rightarrow> response \<Rightarrow> effect list \<times> thrown option" where
  "on_response connected r =
     (let log2 = ConsoleLog (LogResponse (success r) (data r \<noteq> None) (truthy (data_token r))
                               (data_user_role r) (data_admin_role r))
      in
      case token_granted r of
        Some (d, tok) \<Rightarrow>
          (let log3 = ConsoleLog (LogCompleteResponse r True (admin d \<noteq> None)
                                    (user d \<noteq> None) (take 20 tok @ ''...''));
               adminUser = select_principal d;
               log4 = ConsoleLog (LogSelected adminUser (opt_role adminUser)
                                    (opt_role adminUser = Some ''admin''))
           in
           case adminUser of
             None \<Rightarrow>
               ([log2, log3, log4, ConsoleError (ErrNoUserData d)],
                Some (Error ''Invalid response: missing user data''))
           | Some u \<Rightarrow>
               if role u \<noteq> Some ''admin'' then
                 ([log2, log3, log4, ConsoleError (ErrAccessDenied (role u) ''admin'' u)],
                  Some (Error ''Access denied. Admin privileges required.''))
               else
                 ([log2, log3, log4] @ admit_session connected tok u, None))
      | None \<Rightarrow>
          ([log2],
           Some (Error (or_default (error r)
                   ''Invalid admin credentials or insufficient permissions''))))"

text \<open>The \<open>catch\<close> block.\<close>

definition catch_block :: "thrown \<Rightarrow> effect list" where
  "catch_block t =
     [ConsoleError (ErrLogin t),
      Toast Destructive ''Login failed''
        (case t of Error m \<Rightarrow> m | NonError \<Rightarrow> ''An unexpected error occurred.'')]"

text \<open>The \<open>finally\<close> block.\<close>

definition finally_block :: "effect list" where
  "finally_block = [SetIsLoading False]"

text \<open>
  \<open>onSubmit\<close> up to the point where it suspends on \<open>await AdminApi.login(...)\<close>: the
  flag is raised, the attempt is logged, the request is issued.
\<close>

definition onSubmit_begin :: "values_rec \<Rightarrow> effect list" where
  "onSubmit_begin v =
     [SetIsLoading True,
      ConsoleLog (LogAttempt (email v) (password v \<noteq> [])),
      ApiLogin (email v) (password v)]"

text \<open>\<open>onSubmit\<close> from the point where the awaited call settles.\<close>

definition onSubmit_resume :: "env \<Rightarrow> effect list" where
  "onSubmit_resume e =
     (case login_result e of
        Rejected t \<Rightarrow> catch_block t
      | Resolved r \<Rightarrow>
          (case on_response (socket_connected e) r of
             (es, None) \<Rightarrow> es
           | (es, Some t) \<Rightarrow> es @ catch_block t))
     @ finally_block"

definition onSubmit :: "env \<Rightarrow> values_rec \<Rightarrow> effect list" where
  "onSubmit e v = onSubmit_begin v @ onSubmit_resume e"


text \<open>
  The timers a run has registered fire after the run has returned to the event loop;
  \<open>event_loop\<close> is the run followed by the callbacks of its timers.
\<close>

fun run_callback :: "timer_callback \<Rightarrow> effect list" where
  "run_callback ConnectSocket = [SocketConnect]"

fun fire_timers :: "effect list \<Rightarrow> effect list" where
  "fire_timers [] = []"
| "fire_timers (SetTimeout cb ms # es) = run_callback cb @ fire_timers es"
| "fire_timers (_ # es) = fire_timers es"

definition event_loop :: "env \<Rightarrow> values_rec \<Rightarrow> effect list" where
  "event_loop e v = onSubmit e v @ fire_timers (onSubmit e v)"

subsection \<open>The form around the handler\<close>

text \<open>
  \<open>adminLoginSchema\<close>: the two field rules, with the messages of the source. What
  counts as an e-mail address is decided by the validation library's \<open>email()\<close> check,
  which is not code of this component: it is the parameter \<open>is_email\<close>. The result is
  the list of failing fields with their messages, empty when the values are accepted.
\<close>

definition adminLoginSchema :: "(string \<Rightarrow> bool) \<Rightarrow> values_rec \<Rightarrow> (string \<times> string) list" where
  "adminLoginSchema is_email v =
     (if is_email (email v) then []
      else [(''email'', ''Please enter a valid email address.'')])
     @ (if 6 \<le> length (password v) then []
        else [(''password'', ''Password must be at least 6 characters.'')])"

text \<open>
  \<open>form.handleSubmit(onSubmit)\<close> with the schema as resolver: the handler is called
  only with values the schema accepts; otherwise the field messages are shown.
\<close>

definition handleSubmit :: "(string \<Rightarrow> bool) \<Rightarrow> env \<Rightarrow> values_rec \<Rightarrow> effect list" where
  "handleSubmit is_email e v =
     (case adminLoginSchema is_email v of
        [] \<Rightarrow> onSubmit e v
      | errs \<Rightarrow> [FieldErrors errs])"

text \<open>
  The page over time. \<open>isLoading\<close> is the component's state. \<open>disabled\<close> is the
  attribute of the submit button as last rendered: the source computes it as
  \<open>disabled={isLoading}\<close> when the component renders, and the handler never reads
  \<open>isLoading\<close>. \<open>validating\<close> lists the submissions whose resolver
  \<open>form.handleSubmit\<close> is still awaiting, and \<open>in_flight\<close> the runs of \<open>onSubmit\<close> that
  are suspended on their \<open>await AdminApi.login(...)\<close>, both oldest first, each with
  the values submitted.
\<close>

record page =
  isLoading :: bool
  disabled :: bool
  validating :: "values_rec list"
  in_flight :: "values_rec list"

definition initial_page :: page where
  "initial_page = \<lparr>isLoading = False, disabled = False, validating = [], in_flight = []\<rparr>"

text \<open>The state \<open>isLoading\<close> after a list of effects: each \<open>setIsLoading\<close> overwrites it.\<close>

fun replay_loading :: "effect list \<Rightarrow> bool \<Rightarrow> bool" where
  "replay_loading [] b = b"
| "replay_loading (SetIsLoading x # es) b = replay_loading es x"
| "replay_loading (_ # es) b = replay_loading es b"

text \<open>
  What can happen to the page: the user submits the form through its submit button;
  the resolver of the oldest awaited validation settles; the component renders; the
  awaited call of the oldest suspended run settles.
\<close>

datatype page_event = Submit values_rec | Validated | Render | Settle env

text \<open>
  One event.
  \<^item> \<open>Submit\<close>: the only guard is the rendered attribute; a submit attempt on an enabled
    button enters \<open>form.handleSubmit\<close>, which first awaits the resolver.
  \<^item> \<open>Validated\<close>: with values the schema accepts, \<open>onSubmit\<close> is called and runs up to
    its \<open>await\<close>, whatever \<open>isLoading\<close> is; otherwise the field messages are shown.
  \<^item> \<open>Render\<close>: the button takes the current \<open>isLoading\<close>.
  \<^item> \<open>Settle\<close>: the suspended run resumes. Its effects are taken in one step; of
    these only the last, \<open>setIsLoading(false)\<close>, changes the page.
\<close>

fun page_step :: "(string \<Rightarrow> bool) \<Rightarrow> page \<Rightarrow> page_event \<Rightarrow> page \<times> effect list" where
  "page_step is_email s (Submit v) =
     (if disabled s then (s, [])
      else (s\<lparr>validating := validating s @ [v]\<rparr>, []))"
| "page_step is_email s Validated =
     (case validating s of
        [] \<Rightarrow> (s, [])
      | v # rest \<Rightarrow>
          (case adminLoginSchema is_email v of
             [] \<Rightarrow>
               (let es = onSubmit_begin v
                in (s\<lparr>isLoading := replay_loading es (isLoading s),
                      validating := rest,
                      in_flight := in_flight s @ [v]\<rparr>, es))
           | errs \<Rightarrow> (s\<lparr>validating := rest\<rparr>, [FieldErrors errs])))"
| "page_step is_email s Render = (s\<lparr>disabled := isLoading s\<rparr>, [])"
| "page_step is_email s (Settle e) =
     (case in_flight s of
        [] \<Rightarrow> (s, [])
      | v # rest \<Rightarrow>
          (let es = onSubmit_resume e
           in (s\<lparr>isLoading := replay_loading es (isLoading s), in_flight := rest\<rparr>, es)))"

fun page_run :: "(string \<Rightarrow> bool) \<Rightarrow> page \<Rightarrow> page_event list \<Rightarrow> page \<times> effect list" where
  "page_run is_email s [] = (s, [])"
| "page_run is_email s (ev # evs) =
     (case page_step is_email s ev of
        (s', es) \<Rightarrow> (case page_run is_email s' evs of (s'', es') \<Rightarrow> (s'', es @ es')))"

text \<open>
  A paced use of the page: every submit attempt is made on a page that has just been
  rendered, and its validation settles before anything else happens.
\<close>

datatype paced_event = Attempt values_rec | Answer env

fun paced :: "paced_event \<Rightarrow> page_event list" where
  "paced (Attempt v) = [Render, Submit v, Validated]"
| "paced (Answer e) = [Settle e]"


subsection \<open>Views of a trace\<close>

text \<open>The effects that write the session: \<open>setAdminToken\<close> and \<open>localStorage.setItem\<close>.\<close>

fun is_persist :: "effect \<Rightarrow> bool" where
  "is_persist (SetAdminToken _) = True"
| "is_persist (LocalStorageSetItem _ _) = True"
| "is_persist _ = False"

text \<open>The effects on the realtime connection, the timer included.\<close>

fun is_socket :: "effect \<Rightarrow> bool" where
  "is_socket SocketDisconnect = True"
| "is_socket (SetTimeout _ _) = True"
| "is_socket SocketConnect = True"
| "is_socket _ = False"

text \<open>
  The effects of an admission: persistence, the published event, the realtime
  connection, the success callback.
\<close>

fun is_admission :: "effect \<Rightarrow> bool" where
  "is_admission (DispatchEvent _ _ _) = True"
| "is_admission OnLoginSuccess = True"
| "is_admission x = (is_persist x \<or> is_socket x)"

text \<open>The notifications shown to the user.\<close>

fun is_toast :: "effect \<Rightarrow> bool" where
  "is_toast (Toast _ _ _) = True"
| "is_toast _ = False"

definition toasts :: "effect list \<Rightarrow> effect list" where
  "toasts es = filter is_toast es"

fun toast_description :: "effect \<Rightarrow> string" where
  "toast_description (Toast _ _ d) = d"
| "toast_description _ = []"

definition toast_descriptions :: "effect list \<Rightarrow> string list" where
  "toast_descriptions es = map toast_description (toasts es)"

text \<open>The request to the remote service, and the first log line of the handler.\<close>

fun is_request :: "effect \<Rightarrow> bool" where
  "is_request (ApiLogin _ _) = True"
| "is_request _ = False"


text \<open>The effects that carry the selected principal.\<close>

fun carries_principal :: "effect \<Rightarrow> bool" where
  "carries_principal (ConsoleLog (LogSelected _ _ _)) = True"
| "carries_principal (ConsoleError (ErrAccessDenied _ _ _)) = True"
| "carries_principal (LocalStorageSetItem _ _) = True"
| "carries_principal (DispatchEvent _ _ _) = True"
| "carries_principal _ = False"




text \<open>The end of a run: \<open>setIsLoading(false)\<close> in the \<open>finally\<close> block.\<close>

fun is_finished :: "effect \<Rightarrow> bool" where
  "is_finished (SetIsLoading b) = (\<not> b)"
| "is_finished _ = False"


subsection \<open>Sample inputs\<close>

definition admin_principal :: principal where
  "admin_principal = \<lparr>role = Some ''admin'', profile = [(''id'', ''1'')]\<rparr>"

definition standard_principal :: principal where
  "standard_principal = \<lparr>role = Some ''standard'', profile = [(''id'', ''2'')]\<rparr>"

definition sample_values :: values_rec where
  "sample_values = \<lparr>email = ''admin@x.com'', password = ''secret1''\<rparr>"

definition respond :: "response \<Rightarrow> bool \<Rightarrow> env" where
  "respond r c = \<lparr>login_result = Resolved r, socket_connected = c\<rparr>"

definition granted_response :: "principal option \<Rightarrow> principal option \<Rightarrow> response" where
  "granted_response u a =
     \<lparr>success = True, data = Some \<lparr>token = Some ''T1'', user = u, admin = a\<rparr>, error = None\<rparr>"

definition has_at_sign :: "string \<Rightarrow> bool" where
  "has_at_sign s = (CHR ''@'' \<in> set s)"



section \<open>Properties\<close>

lemmas sample_defs = respond_def granted_response_def admin_principal_def
  standard_principal_def sample_values_def

lemmas view_defs = toasts_def toast_descriptions_def

subsection \<open>The trace of the handler, branch by branch\<close>

lemma token_granted_Some:
  assumes "success r" and "data r = Some d" and "token d = Some tok" and "tok \<noteq> []"
  shows "token_granted r = Some (d, tok)"
  using assms by (simp add: token_granted_def data_token_def truthy_def)

lemma token_granted_None:
  assumes "\<not> success r \<or> data_token r = None \<or> data_token r = Some []"
  shows "token_granted r = None"
  using assms by (auto simp: token_granted_def truthy_def)

lemma select_principal_Some:
  assumes "admin d = Some p \<or> (admin d = None \<and> user d = Some p)"
  shows "select_principal d = Some p"
  using assms by (auto simp: select_principal_def)

lemma select_principal_None:
  assumes "admin d = None" and "user d = None"
  shows "select_principal d = None"
  using assms by (simp add: select_principal_def)

lemma onSubmit_resolved:
  assumes "login_result e = Resolved r"
  shows "onSubmit e v =
           onSubmit_begin v
           @ (case on_response (socket_connected e) r of
                (es, None) \<Rightarrow> es
              | (es, Some t) \<Rightarrow> es @ catch_block t)
           @ [SetIsLoading False]"
  using assms by (simp add: onSubmit_def onSubmit_resume_def finally_block_def)

lemma onSubmit_rejected:
  assumes "login_result e = Rejected t"
  shows "onSubmit e v = onSubmit_begin v @ catch_block t @ [SetIsLoading False]"
  using assms by (simp add: onSubmit_def onSubmit_resume_def finally_block_def)

text \<open>The role check passes: the three logs, then the admission, then \<open>finally\<close>.\<close>

lemma onSubmit_admitted:
  assumes "login_result e = Resolved r" and "success r" and "data r = Some d"
    and "token d = Some tok" and "tok \<noteq> []"
    and "admin d = Some p \<or> (admin d = None \<and> user d = Some p)"
    and "role p = Some ''admin''"
  shows "onSubmit e v =
           onSubmit_begin v
           @ [ConsoleLog (LogResponse (success r) (data r \<noteq> None) (truthy (data_token r))
                            (data_user_role r) (data_admin_role r)),
              ConsoleLog (LogCompleteResponse r True (admin d \<noteq> None) (user d \<noteq> None)
                            (take 20 tok @ ''...'')),
              ConsoleLog (LogSelected (Some p) (role p) True)]
           @ admit_session (socket_connected e) tok p
           @ [SetIsLoading False]"
proof -
  have g: "token_granted r = Some (d, tok)"
    using assms(2-5) by (rule token_granted_Some)
  have s: "select_principal d = Some p"
    using assms(6) by (rule select_principal_Some)
  have "on_response (socket_connected e) r =
          ([ConsoleLog (LogResponse (success r) (data r \<noteq> None) (truthy (data_token r))
                          (data_user_role r) (data_admin_role r)),
            ConsoleLog (LogCompleteResponse r True (admin d \<noteq> None) (user d \<noteq> None)
                          (take 20 tok @ ''...'')),
            ConsoleLog (LogSelected (Some p) (role p) True)]
           @ admit_session (socket_connected e) tok p, None)"
    using g s assms(7) by (simp add: on_response_def opt_role_def)
  then show ?thesis
    by (simp add: onSubmit_resolved [OF assms(1)])
qed

text \<open>The role check fails: the handler throws, the \<open>catch\<close> block reports.\<close>

lemma onSubmit_denied:
  assumes "login_result e = Resolved r" and "success r" and "data r = Some d"
    and "token d = Some tok" and "tok \<noteq> []"
    and "admin d = Some p \<or> (admin d = None \<and> user d = Some p)"
    and "role p \<noteq> Some ''admin''"
  shows "onSubmit e v =
           onSubmit_begin v
           @ [ConsoleLog (LogResponse (success r) (data r \<noteq> None) (truthy (data_token r))
                            (data_user_role r) (data_admin_role r)),
              ConsoleLog (LogCompleteResponse r True (admin d \<noteq> None) (user d \<noteq> None)
                            (take 20 tok @ ''...'')),
              ConsoleLog (LogSelected (Some p) (role p) False),
              ConsoleError (ErrAccessDenied (role p) ''admin'' p)]
           @ catch_block (Error ''Access denied. Admin privileges required.'')
           @ [SetIsLoading False]"
proof -
  have g: "token_granted r = Some (d, tok)"
    using assms(2-5) by (rule token_granted_Some)
  have s: "select_principal d = Some p"
    using assms(6) by (rule select_principal_Some)
  have "on_response (socket_connected e) r =
          ([ConsoleLog (LogResponse (success r) (data r \<noteq> None) (truthy (data_token r))
                          (data_user_role r) (data_admin_role r)),
            ConsoleLog (LogCompleteResponse r True (admin d \<noteq> None) (user d \<noteq> None)
                          (take 20 tok @ ''...'')),
            ConsoleLog (LogSelected (Some p) (role p) False),
            ConsoleError (ErrAccessDenied (role p) ''admin'' p)],
           Some (Error ''Access denied. Admin privileges required.''))"
    using g s assms(7) by (simp add: on_response_def opt_role_def)
  then show ?thesis
    by (simp add: onSubmit_resolved [OF assms(1)])
qed

text \<open>Neither \<open>admin\<close> nor \<open>user\<close> is present.\<close>

lemma onSubmit_no_principal:
  assumes "login_result e = Resolved r" and "success r" and "data r = Some d"
    and "token d = Some tok" and "tok \<noteq> []"
    and "admin d = None" and "user d = None"
  shows "onSubmit e v =
           onSubmit_begin v
           @ [ConsoleLog (LogResponse (success r) (data r \<noteq> None) (truthy (data_token r))
                            (data_user_role r) (data_admin_role r)),
              ConsoleLog (LogCompleteResponse r True False False (take 20 tok @ ''...'')),
              ConsoleLog (LogSelected None None False),
              ConsoleError (ErrNoUserData d)]
           @ catch_block (Error ''Invalid response: missing user data'')
           @ [SetIsLoading False]"
proof -
  have g: "token_granted r = Some (d, tok)"
    using assms(2-5) by (rule token_granted_Some)
  have s: "select_principal d = None"
    using assms(6,7) by (rule select_principal_None)
  have "on_response (socket_connected e) r =
          ([ConsoleLog (LogResponse (success r) (data r \<noteq> None) (truthy (data_token r))
                          (data_user_role r) (data_admin_role r)),
            ConsoleLog (LogCompleteResponse r True False False (take 20 tok @ ''...'')),
            ConsoleLog (LogSelected None None False),
            ConsoleError (ErrNoUserData d)],
           Some (Error ''Invalid response: missing user data''))"
    using g s assms(6,7) by (simp add: on_response_def opt_role_def)
  then show ?thesis
    by (simp add: onSubmit_resolved [OF assms(1)])
qed

text \<open>The condition of the \<open>if\<close> fails: the \<open>else\<close> branch throws.\<close>

lemma onSubmit_not_granted:
  assumes "login_result e = Resolved r"
    and "\<not> success r \<or> data_token r = None \<or> data_token r = Some []"
  shows "onSubmit e v =
           onSubmit_begin v
           @ [ConsoleLog (LogResponse (success r) (data r \<noteq> None) (truthy (data_token r))
                            (data_user_role r) (data_admin_role r))]
           @ catch_block (Error (or_default (error r)
                                   ''Invalid admin credentials or insufficient permissions''))
           @ [SetIsLoading False]"
proof -
  have g: "token_granted r = None"
    using assms(2) by (rule token_granted_None)
  have "on_response (socket_connected e) r =
          ([ConsoleLog (LogResponse (success r) (data r \<noteq> None) (truthy (data_token r))
                          (data_user_role r) (data_admin_role r))],
           Some (Error (or_default (error r)
                   ''Invalid admin credentials or insufficient permissions'')))"
    using g by (simp add: on_response_def)
  then show ?thesis
    by (simp add: onSubmit_resolved [OF assms(1)])
qed

subsection \<open>Timers and views on the pieces of a trace\<close>

lemma fire_timers_append: "fire_timers (xs @ ys) = fire_timers xs @ fire_timers ys"
  by (induction xs rule: fire_timers.induct) simp_all

lemma fire_timers_begin: "fire_timers (onSubmit_begin v) = []"
  by (simp add: onSubmit_begin_def)

lemma fire_timers_catch: "fire_timers (catch_block t) = []"
  by (simp add: catch_block_def)

lemma fire_timers_admit_session: "fire_timers (admit_session c tok p) = [SocketConnect]"
  by (simp add: admit_session_def fire_timers_append)

lemma admission_begin: "filter is_admission (onSubmit_begin v) = []"
  by (simp add: onSubmit_begin_def)

lemma admission_catch: "filter is_admission (catch_block t) = []"
  by (simp add: catch_block_def)

lemma admission_admit_session:
  "filter is_admission (admit_session c tok p) =
     [SetAdminToken tok, LocalStorageSetItem ''admin_user'' (JSON_stringify p),
      DispatchEvent ''adminLoginSuccess'' p tok]
     @ (if c then [SocketDisconnect] else [])
     @ [SetTimeout ConnectSocket 100, OnLoginSuccess]"
  by (simp add: admit_session_def)

lemma socket_admit_session:
  "filter is_socket (admit_session c tok p) =
     (if c then [SocketDisconnect] else []) @ [SetTimeout ConnectSocket 100]"
  by (simp add: admit_session_def)

lemma toasts_begin: "filter is_toast (onSubmit_begin v) = []"
  by (simp add: onSubmit_begin_def)

lemma toasts_catch:
  "filter is_toast (catch_block (Error m)) = [Toast Destructive ''Login failed'' m]"
  by (simp add: catch_block_def)

lemma socket_begin: "filter is_socket (onSubmit_begin v) = []"
  by (simp add: onSubmit_begin_def)

lemma carried_begin: "filter carries_principal (onSubmit_begin v) = []"
  by (simp add: onSubmit_begin_def)

lemma carried_catch: "filter carries_principal (catch_block t) = []"
  by (simp add: catch_block_def)

lemma carried_admit_session:
  "filter carries_principal (admit_session c tok p) =
     [LocalStorageSetItem ''admin_user'' (JSON_stringify p),
      DispatchEvent ''adminLoginSuccess'' p tok]"
  by (simp add: admit_session_def)

subsection \<open>Admission\<close>

text \<open>
  C1. When the remote exchange succeeds (the call resolves with \<open>success\<close> and a
  non-empty token) and the selected principal has role \<open>admin\<close>, the effects of the
  admission are, in this order and each once: the session is persisted (the token
  through \<open>setAdminToken\<close>, the principal under \<open>admin_user\<close>), the event
  \<open>adminLoginSuccess\<close> is published with the principal and the token, the realtime
  reconnection is started (the disconnect when connected, and the timer for the
  connect), and then the success callback is invoked. The connect itself runs from the
  timer, after the handler has called the callback and returned: it is not awaited.
\<close>

theorem admitted_effects_in_order:
  assumes "login_result e = Resolved r" and "success r" and "data r = Some d"
    and "token d = Some tok" and "tok \<noteq> []"
    and "admin d = Some p \<or> (admin d = None \<and> user d = Some p)"
    and "role p = Some ''admin''"
  shows "filter is_admission (event_loop e v) =
           [SetAdminToken tok,
            LocalStorageSetItem ''admin_user'' (JSON_stringify p),
            DispatchEvent ''adminLoginSuccess'' p tok]
           @ (if socket_connected e then [SocketDisconnect] else [])
           @ [SetTimeout ConnectSocket 100, OnLoginSuccess, SocketConnect]"
  by (simp add: event_loop_def onSubmit_admitted [OF assms] fire_timers_append
        fire_timers_begin fire_timers_admit_session admission_begin
        admission_admit_session)

theorem admitted_effects_in_order_witness:
  "filter is_admission
     (event_loop (respond (granted_response None (Some admin_principal)) True) sample_values) =
   [SetAdminToken ''T1'',
    LocalStorageSetItem ''admin_user'' (JSON_stringify admin_principal),
    DispatchEvent ''adminLoginSuccess'' admin_principal ''T1'',
    SocketDisconnect, SetTimeout ConnectSocket 100, OnLoginSuccess, SocketConnect]"
  using admitted_effects_in_order
    [of "respond (granted_response None (Some admin_principal)) True"
        "granted_response None (Some admin_principal)"
        "\<lparr>token = Some ''T1'', user = None, admin = Some admin_principal\<rparr>"
        "''T1''" admin_principal sample_values]
  by (simp add: sample_defs)

text \<open>
  C5. For every response that passes the check on \<open>success\<close> and the token, the
  principal that the handler logs as selected, tests for the role, stores under
  \<open>admin_user\<close> and publishes in the event is the \<open>admin\<close> field when that field is
  present (whatever the \<open>user\<close> field holds), and the \<open>user\<close> field when \<open>admin\<close> is
  absent. The role of that principal alone decides between admission and denial.
\<close>

theorem principal_admin_preferred:
  assumes "login_result e = Resolved r" and "success r" and "data r = Some d"
    and "token d = Some tok" and "tok \<noteq> []"
    and "admin d = Some p \<or> (admin d = None \<and> user d = Some p)"
  shows "filter carries_principal (onSubmit e v) =
           (if role p = Some ''admin'' then
              [ConsoleLog (LogSelected (Some p) (role p) True),
               LocalStorageSetItem ''admin_user'' (JSON_stringify p),
               DispatchEvent ''adminLoginSuccess'' p tok]
            else
              [ConsoleLog (LogSelected (Some p) (role p) False),
               ConsoleError (ErrAccessDenied (role p) ''admin'' p)])"
proof (cases "role p = Some ''admin''")
  case True
  show ?thesis
    by (simp add: True onSubmit_admitted [OF assms True] carried_begin carried_admit_session)
next
  case False
  show ?thesis
    by (simp add: False onSubmit_denied [OF assms False] carried_begin carried_catch)
qed

theorem principal_admin_preferred_witness:
  "filter carries_principal
     (onSubmit (respond (granted_response (Some standard_principal) (Some admin_principal)) False)
        sample_values) =
   [ConsoleLog (LogSelected (Some admin_principal) (Some ''admin'') True),
    LocalStorageSetItem ''admin_user'' (JSON_stringify admin_principal),
    DispatchEvent ''adminLoginSuccess'' admin_principal ''T1'']"
  using principal_admin_preferred
    [of "respond (granted_response (Some standard_principal) (Some admin_principal)) False"
        "granted_response (Some standard_principal) (Some admin_principal)"
        "\<lparr>token = Some ''T1'', user = Some standard_principal, admin = Some admin_principal\<rparr>"
        "''T1''" admin_principal sample_values]
  by (simp add: sample_defs)

text \<open>
  C7. In an admission, \<open>disconnect\<close> is called exactly when \<open>isSocketConnected()\<close>
  answered true; the handler itself never calls \<open>connect\<close>, it registers it as a timer
  callback with the fixed delay of 100 ms; so the socket effects of the run followed by
  its timer are the disconnect (if any), the registration of the timer, the connect, in
  this order.
\<close>

theorem reconnect_disconnect_first:
  assumes "login_result e = Resolved r" and "success r" and "data r = Some d"
    and "token d = Some tok" and "tok \<noteq> []"
    and "admin d = Some p \<or> (admin d = None \<and> user d = Some p)"
    and "role p = Some ''admin''"
  shows "filter is_socket (onSubmit e v) =
           (if socket_connected e then [SocketDisconnect] else [])
           @ [SetTimeout ConnectSocket 100] \<and>
         filter is_socket (event_loop e v) =
           (if socket_connected e then [SocketDisconnect] else [])
           @ [SetTimeout ConnectSocket 100, SocketConnect]"
  by (simp add: event_loop_def onSubmit_admitted [OF assms] fire_timers_append
        fire_timers_begin fire_timers_admit_session socket_begin socket_admit_session)

theorem reconnect_disconnect_first_witness:
  "filter is_socket
     (onSubmit (respond (granted_response None (Some admin_principal)) True) sample_values) =
     [SocketDisconnect, SetTimeout ConnectSocket 100] \<and>
   filter is_socket
     (event_loop (respond (granted_response None (Some admin_principal)) True) sample_values) =
     [SocketDisconnect, SetTimeout ConnectSocket 100, SocketConnect]"
  using reconnect_disconnect_first
    [of "respond (granted_response None (Some admin_principal)) True"
        "granted_response None (Some admin_principal)"
        "\<lparr>token = Some ''T1'', user = None, admin = Some admin_principal\<rparr>"
        "''T1''" admin_principal sample_values]
  by (simp add: sample_defs)

subsection \<open>Failures\<close>

text \<open>
  C2. When the exchange succeeds but the selected principal's role is not \<open>admin\<close>
  (another role, or none), the run has no effect of an admission at all: nothing is
  persisted (neither the token nor the principal), no event is published, the socket is
  left alone, the success callback is not invoked; the one notification shown is the
  failure \<open>Access denied. Admin privileges required.\<close>
\<close>

theorem non_admin_never_admitted:
  assumes "login_result e = Resolved r" and "success r" and "data r = Some d"
    and "token d = Some tok" and "tok \<noteq> []"
    and "admin d = Some p \<or> (admin d = None \<and> user d = Some p)"
    and "role p \<noteq> Some ''admin''"
  shows "filter is_admission (event_loop e v) = [] \<and>
         toasts (event_loop e v) =
           [Toast Destructive ''Login failed'' ''Access denied. Admin privileges required.'']"
  by (simp add: event_loop_def onSubmit_denied [OF assms] fire_timers_append
        fire_timers_begin fire_timers_catch admission_begin admission_catch
        toasts_def toasts_begin toasts_catch)

theorem non_admin_never_admitted_witness:
  "filter is_admission
     (event_loop (respond (granted_response (Some standard_principal) None) True)
        sample_values) = [] \<and>
   toasts
     (event_loop (respond (granted_response (Some standard_principal) None) True)
        sample_values) =
     [Toast Destructive ''Login failed'' ''Access denied. Admin privileges required.'']"
  using non_admin_never_admitted
    [of "respond (granted_response (Some standard_principal) None) True"
        "granted_response (Some standard_principal) None"
        "\<lparr>token = Some ''T1'', user = Some standard_principal, admin = None\<rparr>"
        "''T1''" standard_principal sample_values]
  by (simp add: sample_defs)

text \<open>
  C3, as stated, asks for the failure message \<open>malformed response\<close>. For the response
  \<open>{success: true, data: {token: "T1"}}\<close> the handler reports
  \<open>Invalid response: missing user data\<close> instead.
\<close>

theorem missing_principal_counterexample:
  "toast_descriptions (onSubmit (respond (granted_response None None) False) sample_values) =
     [''Invalid response: missing user data''] \<and>
   toast_descriptions (onSubmit (respond (granted_response None None) False) sample_values) \<noteq>
     [''malformed response'']"
proof -
  have "onSubmit (respond (granted_response None None) False) sample_values =
          onSubmit_begin sample_values
          @ [ConsoleLog (LogResponse True True True None None),
             ConsoleLog (LogCompleteResponse (granted_response None None) True False False
                           ''T1...''),
             ConsoleLog (LogSelected None None False),
             ConsoleError (ErrNoUserData \<lparr>token = Some ''T1'', user = None, admin = None\<rparr>)]
          @ catch_block (Error ''Invalid response: missing user data'')
          @ [SetIsLoading False]"
    by (simp add: onSubmit_def onSubmit_resume_def on_response_def token_granted_def
          data_token_def truthy_def select_principal_def opt_role_def finally_block_def
          data_user_role_def data_admin_role_def respond_def granted_response_def)
  then show ?thesis
    by (simp add: view_defs toasts_begin toasts_catch)
qed

text \<open>
  C3, amended. For every response with \<open>success\<close> true and a non-empty token but with
  neither an \<open>admin\<close> nor a \<open>user\<close> field, the thrown error is caught and the run ends in
  its \<open>finally\<close> block; nothing is persisted, published or reconnected and the success
  callback is not invoked; the one notification shown is the failure
  \<open>Invalid response: missing user data\<close>.
\<close>

theorem missing_principal_reported:
  assumes "login_result e = Resolved r" and "success r" and "data r = Some d"
    and "token d = Some tok" and "tok \<noteq> []"
    and "admin d = None" and "user d = None"
  shows "filter is_admission (event_loop e v) = [] \<and>
         toasts (event_loop e v) =
           [Toast Destructive ''Login failed'' ''Invalid response: missing user data''] \<and>
         last (onSubmit e v) = SetIsLoading False"
  by (simp add: event_loop_def onSubmit_no_principal [OF assms] fire_timers_append
        fire_timers_begin fire_timers_catch admission_begin admission_catch
        toasts_def toasts_begin toasts_catch)

theorem missing_principal_reported_witness:
  "filter is_admission
     (event_loop (respond (granted_response None None) False) sample_values) = [] \<and>
   toasts (event_loop (respond (granted_response None None) False) sample_values) =
     [Toast Destructive ''Login failed'' ''Invalid response: missing user data''] \<and>
   last (onSubmit (respond (granted_response None None) False) sample_values) =
     SetIsLoading False"
  using missing_principal_reported
    [of "respond (granted_response None None) False" "granted_response None None"
        "\<lparr>token = Some ''T1'', user = None, admin = None\<rparr>" "''T1''" sample_values]
  by (simp add: sample_defs)

text \<open>
  C9. When the response has \<open>success\<close> false and carries an error message (a non-empty
  \<open>error\<close> string, the reading under which \<open>response.error || ...\<close> keeps it), the one
  notification shown is the failure with exactly that message, and the run has no
  effect of an admission: nothing is persisted.
\<close>

theorem rejection_message_verbatim:
  assumes "login_result e = Resolved r" and "\<not> success r"
    and "error r = Some m" and "m \<noteq> []"
  shows "toasts (event_loop e v) = [Toast Destructive ''Login failed'' m] \<and>
         filter is_admission (event_loop e v) = []"
proof -
  have ng: "\<not> success r \<or> data_token r = None \<or> data_token r = Some []"
    using assms(2) by simp
  have d: "or_default (error r) ''Invalid admin credentials or insufficient permissions'' = m"
    using assms(3,4) by (simp add: or_default_def)
  show ?thesis
    by (simp add: event_loop_def onSubmit_not_granted [OF assms(1) ng] d fire_timers_append
          fire_timers_begin fire_timers_catch admission_begin admission_catch
          toasts_def toasts_begin toasts_catch)
qed

theorem rejection_message_verbatim_witness:
  "toasts
     (event_loop
        (respond \<lparr>success = False, data = None, error = Some ''invalid credentials''\<rparr> True)
        sample_values) = [Toast Destructive ''Login failed'' ''invalid credentials''] \<and>
   filter is_admission
     (event_loop
        (respond \<lparr>success = False, data = None, error = Some ''invalid credentials''\<rparr> True)
        sample_values) = []"
  using rejection_message_verbatim
    [of "respond \<lparr>success = False, data = None, error = Some ''invalid credentials''\<rparr> True"
        "\<lparr>success = False, data = None, error = Some ''invalid credentials''\<rparr>"
        "''invalid credentials''" sample_values]
  by (simp add: sample_defs)

text \<open>
  An \<open>error\<close> field that is present but empty is falsy, and is replaced by the generic
  message like an absent one.
\<close>

lemma empty_error_message_replaced:
  assumes "login_result e = Resolved r" and "\<not> success r" and "error r = Some []"
  shows "toasts (onSubmit e v) =
           [Toast Destructive ''Login failed''
              ''Invalid admin credentials or insufficient permissions'']"
proof -
  have ng: "\<not> success r \<or> data_token r = None \<or> data_token r = Some []"
    using assms(2) by simp
  show ?thesis
    by (simp add: onSubmit_not_granted [OF assms(1) ng] assms(3) or_default_def
          toasts_def toasts_begin toasts_catch)
qed

text \<open>
  C10. When the response has \<open>success\<close> true but no token (no \<open>data\<close>, no \<open>token\<close>
  field, or an empty token), the run has no effect of an admission, and the one
  notification shown is the failure whose message is the response's \<open>error\<close> when that
  is a non-empty string and \<open>Invalid admin credentials or insufficient permissions\<close>
  otherwise: the message of a rejection, not that of a malformed response.
\<close>

theorem tokenless_success_rejected:
  assumes "login_result e = Resolved r" and "success r"
    and "data_token r = None \<or> data_token r = Some []"
  shows "filter is_admission (event_loop e v) = [] \<and>
         toasts (event_loop e v) =
           [Toast Destructive ''Login failed''
              (case error r of
                 None \<Rightarrow> ''Invalid admin credentials or insufficient permissions''
               | Some m \<Rightarrow>
                   if m \<noteq> [] then m
                   else ''Invalid admin credentials or insufficient permissions'')]"
proof -
  have ng: "\<not> success r \<or> data_token r = None \<or> data_token r = Some []"
    using assms(3) by blast
  show ?thesis
    by (simp add: event_loop_def onSubmit_not_granted [OF assms(1) ng] fire_timers_append
          fire_timers_begin fire_timers_catch admission_begin admission_catch
          toasts_def toasts_begin toasts_catch or_default_def)
qed

theorem tokenless_success_rejected_witness:
  "filter is_admission
     (event_loop
        (respond \<lparr>success = True,
                  data = Some \<lparr>token = Some [], user = None, admin = Some admin_principal\<rparr>,
                  error = None\<rparr> True) sample_values) = [] \<and>
   toasts
     (event_loop
        (respond \<lparr>success = True,
                  data = Some \<lparr>token = Some [], user = None, admin = Some admin_principal\<rparr>,
                  error = None\<rparr> True) sample_values) =
     [Toast Destructive ''Login failed''
        ''Invalid admin credentials or insufficient permissions'']"
  using tokenless_success_rejected
    [of "respond \<lparr>success = True,
                   data = Some \<lparr>token = Some [], user = None, admin = Some admin_principal\<rparr>,
                   error = None\<rparr> True"
        "\<lparr>success = True,
          data = Some \<lparr>token = Some [], user = None, admin = Some admin_principal\<rparr>,
          error = None\<rparr>" sample_values]
  by (simp add: sample_defs data_token_def)

subsection \<open>What happens to the credentials\<close>






subsection \<open>Validation before the handler\<close>

lemma schema_rejects:
  assumes "\<not> is_email (email v) \<or> length (password v) < 6"
  shows "adminLoginSchema is_email v \<noteq> []"
  using assms by (auto simp: adminLoginSchema_def)

text \<open>
  C4. When the identifier is not an e-mail address (by the library's check) or the
  secret is shorter than 6, the schema reports a failing field, \<open>handleSubmit\<close> does
  not call the handler, and so no request to the remote service is made; on the page,
  when the validation of such values settles, the field messages are shown and nothing
  else happens: \<open>isLoading\<close> and the suspended runs are as before.
\<close>

theorem invalid_values_never_reach_login:
  assumes "\<not> is_email (email v) \<or> length (password v) < 6"
  shows "adminLoginSchema is_email v \<noteq> [] \<and>
         filter is_request (handleSubmit is_email e v) = [] \<and>
         page_step is_email (s\<lparr>validating := v # rest\<rparr>) Validated =
           (s\<lparr>validating := rest\<rparr>, [FieldErrors (adminLoginSchema is_email v)])"
proof -
  from assms obtain x xs where "adminLoginSchema is_email v = x # xs"
    using schema_rejects [of is_email v] by (cases "adminLoginSchema is_email v") auto
  then show ?thesis
    by (simp add: handleSubmit_def)
qed

theorem invalid_values_never_reach_login_witness:
  "adminLoginSchema has_at_sign \<lparr>email = ''a@b.com'', password = ''short''\<rparr> =
     [(''password'', ''Password must be at least 6 characters.'')] \<and>
   filter is_request
     (handleSubmit has_at_sign (respond (granted_response None (Some admin_principal)) False)
        \<lparr>email = ''a@b.com'', password = ''short''\<rparr>) = [] \<and>
   page_step has_at_sign
     (initial_page\<lparr>validating := [\<lparr>email = ''a@b.com'', password = ''short''\<rparr>]\<rparr>) Validated =
     (initial_page, [FieldErrors [(''password'', ''Password must be at least 6 characters.'')]])"
  using invalid_values_never_reach_login
    [where is_email = has_at_sign and v = "\<lparr>email = ''a@b.com'', password = ''short''\<rparr>"
       and e = "respond (granted_response None (Some admin_principal)) False"
       and s = initial_page and rest = "[]"]
  by (simp add: adminLoginSchema_def has_at_sign_def initial_page_def)

text \<open>Values that the schema accepts do reach the handler.\<close>

lemma valid_values_reach_handler:
  assumes "is_email (email v)" and "6 \<le> length (password v)"
  shows "handleSubmit is_email e v = onSubmit e v"
  using assms by (simp add: handleSubmit_def adminLoginSchema_def)

subsection \<open>One submission at a time\<close>


lemma replay_begin: "replay_loading (onSubmit_begin v) b = True"
  by (simp add: onSubmit_begin_def)




text \<open>A paced attempt on an idle page.\<close>

lemma attempt_while_idle:
  assumes "\<not> isLoading s" and "validating s = []"
  shows "page_run is_email s (paced (Attempt v)) =
           (case adminLoginSchema is_email v of
              [] \<Rightarrow> (s\<lparr>disabled := False, isLoading := True, in_flight := in_flight s @ [v]\<rparr>,
                     onSubmit_begin v)
            | errs \<Rightarrow> (s\<lparr>disabled := False\<rparr>, [FieldErrors errs]))"
  using assms by (simp add: Let_def replay_begin split: list.split)





text \<open>
  Requests are issued only by the first part of the handler, one per run; a run ends
  with exactly one \<open>setIsLoading(false)\<close>.
\<close>

lemma on_response_quiet:
  "filter is_request (fst (on_response c r)) = [] \<and>
   filter is_finished (fst (on_response c r)) = []"
  by (simp add: on_response_def admit_session_def Let_def split: option.split prod.split)

lemma resume_requests_finished:
  "filter is_request (onSubmit_resume e) = [] \<and>
   filter is_finished (onSubmit_resume e) = [SetIsLoading False]"
proof (cases "login_result e")
  case (Rejected t)
  then show ?thesis
    by (simp add: onSubmit_resume_def catch_block_def finally_block_def)
next
  case (Resolved r)
  obtain es t where o: "on_response (socket_connected e) r = (es, t)"
    by (cases "on_response (socket_connected e) r")
  have q: "filter is_request es = [] \<and> filter is_finished es = []"
    using on_response_quiet [of "socket_connected e" r] by (simp add: o)
  show ?thesis
    by (cases t)
       (simp_all add: Resolved o q onSubmit_resume_def catch_block_def finally_block_def)
qed

lemma begin_requests: "filter is_request (onSubmit_begin v) = [ApiLogin (email v) (password v)]"
  by (simp add: onSubmit_begin_def)




text \<open>
  The guard is the submit button, not the handler: \<open>onSubmit\<close> does not read
  \<open>isLoading\<close>, and issues its request whenever it is called.
\<close>

lemma handler_has_no_guard:
  "filter is_request (onSubmit e v) = [ApiLogin (email v) (password v)]"
  by (simp add: onSubmit_def begin_requests resume_requests_finished)




end
